theory Spec2Isabelle
  imports Complex_Main "HOL-Library.Sublist"
begin

section \<open>Python strings and the regular expressions of the amount parser\<close>

text \<open>
  A Python \<open>str\<close> is a sequence of Unicode code points. The parser's character classes
  name the euro sign (U+20AC), which is no 8-bit character, so a string is modelled
  as the list of its code points. \<open>py\<close> turns an ASCII literal into such a list.
\<close>

type_synonym pystr = "nat list"

definition py :: "string \<Rightarrow> pystr" where
  "py s = map of_char s"

text \<open>
  The class \<open>\d\<close> is taken as the ASCII digits \<open>0\<close> to \<open>9\<close> (code points 48 to 57);
  decimal digits of other scripts are treated as any other character.
\<close>

definition is_digit :: "nat \<Rightarrow> bool" where
  "is_digit c = (48 \<le> c \<and> c \<le> 57)"

definition DOLLAR :: nat where "DOLLAR = 36"
definition COMMA :: nat where "COMMA = 44"
definition PERIOD :: nat where "PERIOD = 46"
definition POUND :: nat where "POUND = 163"
definition EURO :: nat where "EURO = 8364"

text \<open>
  The fragment of \<open>re\<close> syntax that the three patterns use: \<open>\d\<close>, a class of literal
  characters, concatenation, the greedy \<open>?\<close> and \<open>*\<close>, and the capturing group.
\<close>

datatype rx =
    Digit
  | Chars "nat list"
  | Cat rx rx
  | Opt rx
  | Star rx
  | Grp rx

text \<open>
  A backtracking matcher in the order of Python's engine: a greedy operator tries its
  operand first and falls back to skipping it only when the rest of the pattern fails.
  The state is the unread input and the text of group 1; the continuation is the rest
  of the pattern. An iteration of \<open>*\<close> that reads nothing is cut off.
\<close>

type_synonym mstate = "pystr \<times> pystr option"

fun rx_match :: "rx \<Rightarrow> mstate \<Rightarrow> (mstate \<Rightarrow> mstate option) \<Rightarrow> mstate option" where
  "rx_match Digit (s, g) k =
     (case s of [] \<Rightarrow> None | c # cs \<Rightarrow> if is_digit c then k (cs, g) else None)"
| "rx_match (Chars cl) (s, g) k =
     (case s of [] \<Rightarrow> None | c # cs \<Rightarrow> if c \<in> set cl then k (cs, g) else None)"
| "rx_match (Cat a b) (s, g) k = rx_match a (s, g) (\<lambda>st. rx_match b st k)"
| "rx_match (Opt a) (s, g) k =
     (case rx_match a (s, g) k of Some r \<Rightarrow> Some r | None \<Rightarrow> k (s, g))"
| "rx_match (Star a) (s, g) k =
     (case rx_match a (s, g)
             (\<lambda>st. if length (fst st) < length s then rx_match (Star a) st k else None) of
        Some r \<Rightarrow> Some r
      | None \<Rightarrow> k (s, g))"
| "rx_match (Grp a) (s, g) k =
     rx_match a (s, g) (\<lambda>st. k (fst st, Some (take (length s - length (fst st)) s)))"

text \<open>
  \<open>re.findall\<close> for a pattern with one group: it scans from the left, a match is
  searched at the current position, its group text is collected and the scan goes on
  where the match ended; where nothing matches, the scan moves one character on. A
  group that took no part in the match gives the empty string.
\<close>

definition match_here :: "rx \<Rightarrow> pystr \<Rightarrow> mstate option" where
  "match_here r s = rx_match r (s, None) Some"

definition group_text :: "pystr option \<Rightarrow> pystr" where
  "group_text g = (case g of None \<Rightarrow> [] | Some t \<Rightarrow> t)"

fun findall :: "rx \<Rightarrow> pystr \<Rightarrow> pystr list" where
  "findall r [] =
     (case match_here r [] of None \<Rightarrow> [] | Some st \<Rightarrow> [group_text (snd st)])"
| "findall r (c # cs) =
     (case match_here r (c # cs) of
        None \<Rightarrow> findall r cs
      | Some st \<Rightarrow>
          if length (fst st) < Suc (length cs)
          then group_text (snd st) # findall r (fst st)
          else group_text (snd st) # findall r cs)"

text \<open>
  \<open>re.sub\<close> for a pattern that is one character class: every character of the class
  is replaced. \<open>str.replace\<close> for a one-character needle.
\<close>

definition re_sub_class :: "(nat \<Rightarrow> bool) \<Rightarrow> pystr \<Rightarrow> pystr \<Rightarrow> pystr" where
  "re_sub_class cls repl s = concat (map (\<lambda>c. if cls c then repl else [c]) s)"

definition str_replace :: "nat \<Rightarrow> pystr \<Rightarrow> pystr \<Rightarrow> pystr" where
  "str_replace old new s = concat (map (\<lambda>c. if c = old then new else [c]) s)"

text \<open>
  \<open>float(s)\<close> on the strings the parser hands to it, which hold ASCII digits and
  periods only: digits with at most one period and at least one digit give a number,
  anything else is the \<open>ValueError\<close>, here \<open>None\<close>. The Python float is modelled as the
  exact value of the decimal string. \<open>float\<close> rounds to the nearest float and so
  keeps the order, and the bounds 0.01 and 1000000 of the range check are read the
  same way, so the check decides as it does on floats; within the range, strings
  with at most two decimals and different values give different floats.
\<close>

definition digit_value :: "nat \<Rightarrow> nat" where
  "digit_value c = c - 48"

definition decimal :: "pystr \<Rightarrow> nat" where
  "decimal ds = foldl (\<lambda>n c. 10 * n + digit_value c) 0 ds"

definition float_py :: "pystr \<Rightarrow> real option" where
  "float_py s =
     (let ip = takeWhile is_digit s; r = dropWhile is_digit s
      in case r of
           [] \<Rightarrow> if ip = [] then None else Some (real (decimal ip))
         | c # fp \<Rightarrow>
             if c = PERIOD \<and> list_all is_digit fp \<and> \<not> (ip = [] \<and> fp = [])
             then Some (real (decimal ip) + real (decimal fp) / 10 ^ length fp)
             else None)"

section \<open>The amount parser\<close>

text \<open>The character class \<open>[^\d.,$\<euro>\<pounds>]\<close> of the cleaning step.\<close>

definition noise_char :: "nat \<Rightarrow> bool" where
  "noise_char c = (\<not> (is_digit c \<or> c \<in> set [PERIOD, COMMA, DOLLAR, EURO, POUND]))"

text \<open>
  The three patterns. \<open>\d{1,3}\<close> is written \<open>\d(?:\d\d?)?\<close>, \<open>\d{3}\<close> and \<open>\d{2}\<close> are
  written out, \<open>\d+\<close> is \<open>\d\d*\<close>; each has the same matches in the same order of
  preference.
\<close>

definition currency :: rx where
  "currency = Chars [DOLLAR, EURO, POUND]"

definition digits_1_3 :: rx where
  "digits_1_3 = Cat Digit (Opt (Cat Digit (Opt Digit)))"

definition digits_3 :: rx where
  "digits_3 = Cat Digit (Cat Digit Digit)"

definition digits_2 :: rx where
  "digits_2 = Cat Digit Digit"

definition cents :: rx where
  "cents = Opt (Cat (Chars [PERIOD]) digits_2)"

definition grouped :: rx where
  "grouped = Cat digits_1_3 (Cat (Star (Cat (Chars [COMMA]) digits_3)) cents)"

definition pattern1 :: rx where
  "pattern1 = Cat (Opt currency) (Grp grouped)"

definition pattern2 :: rx where
  "pattern2 = Cat (Grp grouped) (Opt currency)"

definition pattern3 :: rx where
  "pattern3 = Cat (Opt currency) (Grp (Cat (Cat Digit (Star Digit)) cents))"

definition patterns :: "rx list" where
  "patterns = [pattern1, pattern2, pattern3]"

text \<open>
  The loop over the patterns. A pattern without a match, a first match that does not
  parse (\<open>continue\<close>) and a first match outside the range all lead to the next
  pattern; the function returns inside the loop only with an amount in the range.
\<close>

fun try_patterns :: "rx list \<Rightarrow> pystr \<Rightarrow> real option" where
  "try_patterns [] clean_text = None"
| "try_patterns (pattern # rest) clean_text =
     (let matches = findall pattern clean_text
      in case matches of
           [] \<Rightarrow> try_patterns rest clean_text
         | m # _ \<Rightarrow>
             (case float_py (str_replace COMMA [] m) of
                None \<Rightarrow> try_patterns rest clean_text
              | Some amount \<Rightarrow>
                  if 1 / 100 \<le> amount \<and> amount \<le> 1000000 then Some amount
                  else try_patterns rest clean_text))"

definition parse_prize_amount :: "pystr \<Rightarrow> real option" where
  "parse_prize_amount text = try_patterns patterns (re_sub_class noise_char [] text)"

section \<open>Exceptions, frames and the crop\<close>

text \<open>
  A raised exception, with the text that \<open>str(e)\<close> gives: \<open>Exception\<close> stands for an
  instance of class \<open>Exception\<close>, which \<open>except Exception\<close> catches, and
  \<open>BaseExceptionOnly\<close> for one outside that class (\<open>KeyboardInterrupt\<close>, \<open>SystemExit\<close>),
  which it lets through.
\<close>

datatype exn = Exception pystr | BaseExceptionOnly pystr

fun str_exn :: "exn \<Rightarrow> pystr" where
  "str_exn (Exception msg) = msg"
| "str_exn (BaseExceptionOnly msg) = msg"

fun str_nat :: "nat \<Rightarrow> pystr" where
  "str_nat n = (if n < 10 then [48 + n] else str_nat (n div 10) @ [48 + n mod 10])"

declare str_nat.simps [simp del]

text \<open>
  The \<open>KeyError\<close> of a lookup of an absent key, whose text is the key in quotes, and
  the \<open>ValueError\<close> of \<open>x1, y1, x2, y2 = roi_coords\<close> on a list of another length.
\<close>

definition key_error :: "pystr \<Rightarrow> exn" where
  "key_error k = Exception ([39] @ k @ [39])"

definition unpack_error :: "nat \<Rightarrow> exn" where
  "unpack_error n =
     (if n < 4
      then Exception (py ''not enough values to unpack (expected 4, got '' @ str_nat n @ py '')'')
      else Exception (py ''too many values to unpack (expected 4)''))"

text \<open>
  A frame is the list of its rows, a row the list of its pixels. \<open>xs[a:b]\<close> follows
  Python: a negative bound counts from the end, and both bounds are clamped to the
  length, so a slice never fails.
\<close>

type_synonym 'p image = "'p list list"

definition slice_bound :: "int \<Rightarrow> nat \<Rightarrow> nat" where
  "slice_bound a n = (if a < 0 then nat (max (a + int n) 0) else min (nat a) n)"

definition py_slice :: "int \<Rightarrow> int \<Rightarrow> 'a list \<Rightarrow> 'a list" where
  "py_slice a b xs =
     (let lo = slice_bound a (length xs); hi = slice_bound b (length xs)
      in take (hi - lo) (drop lo xs))"

text \<open>
  The two entries of \<open>config['processing']\<close> that the pipeline reads. The configuration
  is loaded without any check, so an entry can be absent (\<open>None\<close>), and reading it
  then raises the \<open>KeyError\<close>.
\<close>

record config =
  roi_coordinates :: "int list option"
  confidence_threshold :: "real option"

definition extract_roi :: "config \<Rightarrow> 'p image \<Rightarrow> exn + 'p image" where
  "extract_roi cfg img =
     (case roi_coordinates cfg of
        None \<Rightarrow> Inl (key_error (py ''roi_coordinates''))
      | Some roi_coords \<Rightarrow>
          if length roi_coords = 4
          then (let x1 = roi_coords ! 0; y1 = roi_coords ! 1;
                    x2 = roi_coords ! 2; y2 = roi_coords ! 3
                in Inr (map (py_slice x1 x2) (py_slice y1 y2 img)))
          else Inl (unpack_error (length roi_coords)))"

section \<open>Processing one frame\<close>

text \<open>
  The calls into OpenCV and PaddleOCR are parameters: each call either raises or
  returns. The recognizer returns, per image, \<open>None\<close> or a list of lines
  \<open>[box, (text, confidence)]\<close>. The clock is read at two places, in the \<open>try\<close> block
  when the result is set up and in the handler; each reading is a parameter.
\<close>

type_synonym 'b ocr_line = "'b \<times> (pystr \<times> real)"

type_synonym 'b ocr_result = "'b ocr_line list option list"

record ('p, 'g, 'b) collaborators =
  cvtColor :: "'p image \<Rightarrow> exn + 'g"
  clahe_apply :: "'g \<Rightarrow> exn + 'g"
  fastNlMeansDenoising :: "'g \<Rightarrow> exn + 'g"
  ocr :: "'g \<Rightarrow> exn + 'b ocr_result"
  time_time :: real
  time_time_handler :: real

definition preprocess_image :: "('p, 'g, 'b) collaborators \<Rightarrow> 'p image \<Rightarrow> exn + 'g" where
  "preprocess_image env img =
     (case cvtColor env img of
        Inl e \<Rightarrow> Inl e
      | Inr gray \<Rightarrow>
          (case clahe_apply env gray of
             Inl e \<Rightarrow> Inl e
           | Inr enhanced \<Rightarrow> fastNlMeansDenoising env enhanced))"

record extraction =
  machine_id :: pystr
  timestamp :: real
  prize_amount :: "real option"
  confidence :: real
  raw_text :: "(pystr \<times> real) list"
  status :: pystr

text \<open>Truth value of an \<open>Optional[float]\<close>: \<open>None\<close> and \<open>0.0\<close> are false.\<close>

definition truthy :: "real option \<Rightarrow> bool" where
  "truthy v = (case v of None \<Rightarrow> False | Some a \<Rightarrow> a \<noteq> 0)"

text \<open>
  The body of the loop over the lines, and the loop. The threshold is looked up in
  the configuration in every round, after the detection has been recorded; where the
  entry is absent the lookup raises and the loop ends there.
\<close>

definition scan_line :: "config \<Rightarrow> 'b ocr_line \<Rightarrow> extraction \<Rightarrow> exn + extraction" where
  "scan_line cfg line extracted_data =
     (let text = fst (snd line);
          conf = snd (snd line);
          d = extracted_data\<lparr>raw_text := raw_text extracted_data @ [(text, conf)]\<rparr>
      in case confidence_threshold cfg of
           None \<Rightarrow> Inl (key_error (py ''confidence_threshold''))
         | Some threshold \<Rightarrow>
             Inr (if conf \<ge> threshold
                  then (let amount = parse_prize_amount text
                        in if truthy amount \<and> (prize_amount d = None \<or> conf > confidence d)
                           then d\<lparr>prize_amount := amount, confidence := conf\<rparr>
                           else d)
                  else d))"

fun scan_lines :: "config \<Rightarrow> 'b ocr_line list \<Rightarrow> extraction \<Rightarrow> exn + extraction" where
  "scan_lines cfg [] extracted_data = Inr extracted_data"
| "scan_lines cfg (line # lines) extracted_data =
     (case scan_line cfg line extracted_data of
        Inl e \<Rightarrow> Inl e
      | Inr d \<Rightarrow> scan_lines cfg lines d)"

text \<open>\<open>if result and result[0]\<close>: the lines of the first image, when there are any.\<close>

definition first_lines :: "'b ocr_result \<Rightarrow> 'b ocr_line list" where
  "first_lines result =
     (case result of [] \<Rightarrow> [] | r0 # _ \<Rightarrow> (case r0 of None \<Rightarrow> [] | Some lines \<Rightarrow> lines))"

text \<open>The part of the \<open>try\<close> block after the recognizer: set-up, scan and status.\<close>

definition classify :: "config \<Rightarrow> pystr \<Rightarrow> real \<Rightarrow> 'b ocr_result \<Rightarrow> exn + extraction" where
  "classify cfg mid now result =
     (let extracted_data =
            \<lparr>machine_id = mid, timestamp = now, prize_amount = None, confidence = 0,
             raw_text = [], status = py ''processing''\<rparr>
      in case scan_lines cfg (first_lines result) extracted_data of
           Inl e \<Rightarrow> Inl e
         | Inr d \<Rightarrow>
             Inr (if prize_amount d \<noteq> None
                  then d\<lparr>status := py ''success''\<rparr>
                  else d\<lparr>status := py ''no_prize_found''\<rparr>))"

text \<open>The \<open>try\<close> block: the first stage that raises ends it.\<close>

definition try_frame ::
  "config \<Rightarrow> ('p, 'g, 'b) collaborators \<Rightarrow> 'p image \<Rightarrow> pystr \<Rightarrow> exn + extraction" where
  "try_frame cfg env frame mid =
     (case extract_roi cfg frame of
        Inl e \<Rightarrow> Inl e
      | Inr roi_image \<Rightarrow>
          (case preprocess_image env roi_image of
             Inl e \<Rightarrow> Inl e
           | Inr processed_image \<Rightarrow>
               (case ocr env processed_image of
                  Inl e \<Rightarrow> Inl e
                | Inr result \<Rightarrow> classify cfg mid (time_time env) result)))"

text \<open>
  \<open>process_frame\<close>: the \<open>try\<close> block and its \<open>except Exception\<close> handler. \<open>Inr\<close> is a
  returned result; \<open>Inl\<close> is an exception that leaves \<open>process_frame\<close>.
\<close>

definition process_frame ::
  "config \<Rightarrow> ('p, 'g, 'b) collaborators \<Rightarrow> 'p image \<Rightarrow> pystr \<Rightarrow> exn + extraction" where
  "process_frame cfg env frame mid =
     (case try_frame cfg env frame mid of
        Inr extracted_data \<Rightarrow> Inr extracted_data
      | Inl e \<Rightarrow>
          (case e of
             Exception msg \<Rightarrow>
               Inr \<lparr>machine_id = mid, timestamp = time_time_handler env, prize_amount = None,
                    confidence = 0, raw_text = [], status = py ''error: '' @ str_exn e\<rparr>
           | BaseExceptionOnly msg \<Rightarrow> Inl e))"

section \<open>Persistence and the acquisition loop\<close>

text \<open>
  The table \<open>slot_machine_prizes\<close>, keyed by machine identifier. The statement of
  \<open>update_prize\<close> sets \<open>updated_at\<close> only on a conflict; an inserted row gets the
  column's default, which is not part of the statement (\<open>None\<close> here). The connection
  is a parameter: \<open>fault\<close> is the exception that executing or committing raises, if
  any. \<open>upserts\<close> logs every call of \<open>update_prize\<close> with its arguments.
\<close>

record prize_row =
  row_prize_amount :: real
  row_confidence :: real
  detected_at :: real
  updated_at :: "real option"

record database =
  slot_machine_prizes :: "pystr \<rightharpoonup> prize_row"
  fault :: "exn option"
  current_timestamp :: real
  upserts :: "(pystr \<times> real \<times> real \<times> real) list"

definition update_prize ::
  "database \<Rightarrow> pystr \<Rightarrow> real \<Rightarrow> real \<Rightarrow> real \<Rightarrow> exn option \<times> database" where
  "update_prize db mid amount conf ts =
     (let called = db\<lparr>upserts := upserts db @ [(mid, amount, conf, ts)]\<rparr>
      in case fault db of
           Some e \<Rightarrow> (Some e, called)
         | None \<Rightarrow>
             (None,
              called\<lparr>slot_machine_prizes := (slot_machine_prizes db)(mid \<mapsto>
                 \<lparr>row_prize_amount = amount, row_confidence = conf, detected_at = ts,
                  updated_at = (case slot_machine_prizes db mid of
                                  None \<Rightarrow> None
                                | Some old \<Rightarrow> Some (current_timestamp db))\<rparr>)\<rparr>))"

text \<open>\<open>update_database\<close> catches and logs whatever \<open>update_prize\<close> raises.\<close>

definition update_database :: "database \<Rightarrow> extraction \<Rightarrow> database" where
  "update_database db result =
     (if status result = py ''success'' \<and> prize_amount result \<noteq> None
      then (case prize_amount result of
              None \<Rightarrow> db
            | Some amount \<Rightarrow>
                snd (update_prize db (machine_id result) amount (confidence result)
                       (timestamp result)))
      else db)"

text \<open>
  One round of the loop of \<open>main\<close> on a captured frame; the display is left out. An
  exception that leaves \<open>process_frame\<close> leaves the loop with the counters and the
  store as they were: the first component is that exception.
\<close>

record loop_state =
  frame_count :: nat
  success_count :: nat
  store :: database

definition main_iteration ::
  "config \<Rightarrow> ('p, 'g, 'b) collaborators \<Rightarrow> pystr \<Rightarrow> loop_state \<Rightarrow> 'p image \<Rightarrow>
     exn option \<times> loop_state" where
  "main_iteration cfg env mid st frame =
     (case process_frame cfg env frame mid of
        Inl e \<Rightarrow> (Some e, st)
      | Inr result \<Rightarrow>
          (let counted = st\<lparr>frame_count := frame_count st + 1\<rparr>
           in if status result = py ''success''
              then (None, counted\<lparr>success_count := success_count counted + 1,
                                  store := update_database (store counted) result\<rparr>)
              else (None, counted)))"

text \<open>
  The rendering \<open>f"{amount:.2f}"\<close> that \<open>main\<close> shows, for an amount that is a whole
  number of hundredths and not negative, as every amount of the parser is: the integer
  part in decimal, a period and two digits. Python rounds the binary float where the
  value has more decimals; that case is outside this definition.
\<close>

definition format_2f :: "real \<Rightarrow> pystr" where
  "format_2f amount =
     (let hundredths = nat (round (amount * 100))
      in str_nat (hundredths div 100) @ [PERIOD] @
         [48 + (hundredths mod 100) div 10, 48 + hundredths mod 10])"

section \<open>The classifier as the specification words it\<close>



section \<open>Notions used in the statements\<close>

text \<open>
  The parsed first match of a pattern on a cleaned text, when the pattern has a match
  and its first match parses; and that value when it also lies within the bounds.
\<close>

definition first_amount :: "rx \<Rightarrow> pystr \<Rightarrow> real option" where
  "first_amount pattern clean_text =
     (case findall pattern clean_text of
        [] \<Rightarrow> None
      | m # _ \<Rightarrow> float_py (str_replace COMMA [] m))"

definition accepted :: "rx \<Rightarrow> pystr \<Rightarrow> real option" where
  "accepted pattern clean_text =
     (case first_amount pattern clean_text of
        None \<Rightarrow> None
      | Some amount \<Rightarrow> if 1 / 100 \<le> amount \<and> amount \<le> 1000000 then Some amount else None)"

text \<open>
  Some stage of the pipeline raises \<open>e\<close> on the frame: the crop, the normalizer, the
  recognizer, or the scan of the recognized lines with the parser.
\<close>

definition stage_raises ::
  "config \<Rightarrow> ('p, 'g, 'b) collaborators \<Rightarrow> 'p image \<Rightarrow> pystr \<Rightarrow> exn \<Rightarrow> bool" where
  "stage_raises cfg env frame mid e =
     (case extract_roi cfg frame of
        Inl e1 \<Rightarrow> e1 = e
      | Inr roi_image \<Rightarrow>
          (case preprocess_image env roi_image of
             Inl e2 \<Rightarrow> e2 = e
           | Inr processed_image \<Rightarrow>
               (case ocr env processed_image of
                  Inl e3 \<Rightarrow> e3 = e
                | Inr result \<Rightarrow>
                    (case classify cfg mid (time_time env) result of
                       Inl e4 \<Rightarrow> e4 = e
                     | Inr d \<Rightarrow> False))))"

text \<open>
  The invariant of the scan: a best amount that is present was parsed from a recorded
  detection that carries the best confidence and reached the configured threshold.
\<close>

definition best_inv :: "config \<Rightarrow> extraction \<Rightarrow> bool" where
  "best_inv cfg d =
     (\<forall>a. prize_amount d = Some a \<longrightarrow>
        (\<exists>t c thr. (t, c) \<in> set (raw_text d) \<and> parse_prize_amount t = Some a \<and>
           c = confidence d \<and> confidence_threshold cfg = Some thr \<and> thr \<le> c))"

section \<open>Facts about the parser\<close>

lemmas char_defs = DOLLAR_def COMMA_def PERIOD_def POUND_def EURO_def is_digit_def

lemmas pattern_defs = pattern1_def pattern2_def pattern3_def grouped_def cents_def
  digits_1_3_def digits_2_def digits_3_def currency_def match_here_def group_text_def

lemmas parse_defs = parse_prize_amount_def patterns_def py_def re_sub_class_def
  noise_char_def str_replace_def float_py_def decimal_def digit_value_def
  pattern_defs char_defs






lemma parse_50_00: "parse_prize_amount (py ''$50.00'') = Some 50"
  by (simp add: parse_defs)

lemma parse_75_00: "parse_prize_amount (py ''$75.00'') = Some 75"
  by (simp add: parse_defs)

lemma parse_jackpot: "parse_prize_amount (py ''JACKPOT'') = None"
  by (simp add: parse_defs)

section \<open>The result classifier\<close>






section \<open>The status of a result\<close>

lemma status_distinct:
  "py ''success'' \<noteq> py ''error: '' @ m"
  "py ''success'' \<noteq> py ''no_prize_found''"
  "py ''processing'' \<noteq> py ''error: '' @ m"
  "py ''processing'' \<noteq> py ''success''"
  "py ''processing'' \<noteq> py ''no_prize_found''"
  "py ''no_prize_found'' \<noteq> py ''error: '' @ m"
  by (simp_all add: py_def)

lemmas status_ne = status_distinct status_distinct [symmetric]

lemma prefix_error: "prefix (py ''error:'') (py ''error: '' @ m)"
  by (simp add: py_def)

lemma classify_status:
  "classify cfg mid now result = Inr d \<Longrightarrow>
   status d = py ''success'' \<and> prize_amount d \<noteq> None \<or>
   status d = py ''no_prize_found'' \<and> prize_amount d = None"
  by (auto simp: classify_def Let_def split: sum.splits if_splits)

lemma try_frame_Inr:
  "try_frame cfg (env :: ('p, 'g, 'b) collaborators) frame mid = Inr r \<Longrightarrow>
   \<exists>result :: 'b ocr_result. classify cfg mid (time_time env) result = Inr r"
  unfolding try_frame_def by (auto split: sum.splits)

lemma try_frame_Inl:
  "try_frame cfg env frame mid = Inl e \<longleftrightarrow> stage_raises cfg env frame mid e"
  unfolding try_frame_def stage_raises_def by (auto split: sum.splits)

lemma process_frame_cases:
  "process_frame cfg (env :: ('p, 'g, 'b) collaborators) frame mid = Inr r \<Longrightarrow>
   (\<exists>result :: 'b ocr_result. classify cfg mid (time_time env) result = Inr r) \<or>
   (\<exists>msg. stage_raises cfg env frame mid (Exception msg) \<and>
      r = \<lparr>machine_id = mid, timestamp = time_time_handler env, prize_amount = None,
           confidence = 0, raw_text = [], status = py ''error: '' @ msg\<rparr>)"
proof (cases "try_frame cfg env frame mid")
  case (Inr d)
  assume "process_frame cfg env frame mid = Inr r"
  with Inr have "try_frame cfg env frame mid = Inr r" by (simp add: process_frame_def)
  from try_frame_Inr [OF this] show ?thesis by blast
next
  case (Inl e)
  assume r: "process_frame cfg env frame mid = Inr r"
  show ?thesis
  proof (cases e)
    case (Exception msg)
    with Inl have "stage_raises cfg env frame mid (Exception msg)"
      by (simp add: try_frame_Inl)
    moreover from r Inl Exception
    have "r = \<lparr>machine_id = mid, timestamp = time_time_handler env, prize_amount = None,
           confidence = 0, raw_text = [], status = py ''error: '' @ msg\<rparr>"
      by (simp add: process_frame_def)
    ultimately show ?thesis by blast
  next
    case (BaseExceptionOnly msg)
    with r Inl show ?thesis by (simp add: process_frame_def)
  qed
qed

section \<open>Four frames worked through\<close>

text \<open>
  A one-pixel frame with the rectangle \<open>(0, 0, 1, 1)\<close>, a normalizer that returns its
  input, and a recognizer that returns two detections: the result is a success with the
  second detection's amount. The same frame without a configured threshold: the lookup
  in the scan raises, and the handler returns an error result. A recognizer that
  returns a text without an amount: no prize found. A recognizer that is interrupted
  (\<open>KeyboardInterrupt\<close>, whose text is empty): the exception leaves \<open>process_frame\<close>.
\<close>

lemma two_detections_result:
  "process_frame \<lparr>roi_coordinates = Some [0, 0, 1, 1], confidence_threshold = Some (9 / 10)\<rparr>
     \<lparr>cvtColor = \<lambda>i. Inr i, clahe_apply = Inr, fastNlMeansDenoising = Inr,
      ocr = \<lambda>g. Inr [Some [((), (py ''$50.00'', 95 / 100)), ((), (py ''$75.00'', 99 / 100))]], time_time = 0, time_time_handler = 1\<rparr>
     [[7 :: nat]] (py ''M1'') =
   Inr \<lparr>machine_id = py ''M1'', timestamp = 0, prize_amount = Some 75, confidence = 99 / 100,
      raw_text = [(py ''$50.00'', 95 / 100), (py ''$75.00'', 99 / 100)],
      status = py ''success''\<rparr>"
  by (simp add: process_frame_def try_frame_def extract_roi_def preprocess_image_def
      py_slice_def slice_bound_def classify_def first_lines_def scan_line_def Let_def
      parse_50_00 parse_75_00 truthy_def)

lemma missing_threshold_result:
  "process_frame \<lparr>roi_coordinates = Some [0, 0, 1, 1], confidence_threshold = None\<rparr>
     \<lparr>cvtColor = \<lambda>i. Inr i, clahe_apply = Inr, fastNlMeansDenoising = Inr,
      ocr = \<lambda>g. Inr [Some [((), (py ''$50.00'', 95 / 100)), ((), (py ''$75.00'', 99 / 100))]], time_time = 0, time_time_handler = 1\<rparr>
     [[7 :: nat]] (py ''M1'') =
   Inr \<lparr>machine_id = py ''M1'', timestamp = 1, prize_amount = None, confidence = 0,
      raw_text = [], status = py ''error: '' @ [39] @ py ''confidence_threshold'' @ [39]\<rparr>"
  by (simp add: process_frame_def try_frame_def extract_roi_def preprocess_image_def
      py_slice_def slice_bound_def classify_def first_lines_def scan_line_def Let_def
      key_error_def)

lemma no_amount_result:
  "process_frame \<lparr>roi_coordinates = Some [0, 0, 1, 1], confidence_threshold = Some (9 / 10)\<rparr>
     \<lparr>cvtColor = \<lambda>i. Inr i, clahe_apply = Inr, fastNlMeansDenoising = Inr,
      ocr = \<lambda>g. Inr [Some [((), (py ''JACKPOT'', 99 / 100))]], time_time = 0, time_time_handler = 1\<rparr>
     [[7 :: nat]] (py ''M1'') =
   Inr \<lparr>machine_id = py ''M1'', timestamp = 0, prize_amount = None, confidence = 0,
      raw_text = [(py ''JACKPOT'', 99 / 100)], status = py ''no_prize_found''\<rparr>"
  by (simp add: process_frame_def try_frame_def extract_roi_def preprocess_image_def
      py_slice_def slice_bound_def classify_def first_lines_def scan_line_def Let_def
      parse_jackpot truthy_def)

lemma interrupted_recognizer_result:
  "process_frame \<lparr>roi_coordinates = Some [0, 0, 1, 1], confidence_threshold = Some (9 / 10)\<rparr>
     \<lparr>cvtColor = \<lambda>i. Inr i, clahe_apply = Inr, fastNlMeansDenoising = Inr,
      ocr = \<lambda>g. Inl (BaseExceptionOnly []) :: exn + unit ocr_result, time_time = 0, time_time_handler = 1\<rparr>
     [[7 :: nat]] (py ''M1'') = Inl (BaseExceptionOnly [])"
  by (simp add: process_frame_def try_frame_def extract_roi_def preprocess_image_def
      py_slice_def slice_bound_def Let_def)

section \<open>The status of a returned result\<close>

text \<open>
  C4. For every frame and machine identifier, the status of a result that
  \<open>process_frame\<close> returns is \<open>success\<close> if and only if its prize amount is not \<open>None\<close>.
\<close>

theorem status_success_iff_amount:
  "process_frame cfg (env :: ('p, 'g, 'b) collaborators) frame mid = Inr r \<Longrightarrow>
   (status r = py ''success'' \<longleftrightarrow> prize_amount r \<noteq> None)"
proof -
  assume "process_frame cfg env frame mid = Inr r"
  from process_frame_cases [OF this] show ?thesis
  proof (elim disjE exE conjE)
    fix result :: "'b ocr_result"
    assume "classify cfg mid (time_time env) result = Inr r"
    from classify_status [OF this] show ?thesis by (auto simp: status_ne)
  next
    fix msg
    assume "r = \<lparr>machine_id = mid, timestamp = time_time_handler env, prize_amount = None,
      confidence = 0, raw_text = [], status = py ''error: '' @ msg\<rparr>"
    then show ?thesis by (simp add: status_ne)
  qed
qed

theorem status_success_iff_amount_witness:
  "process_frame \<lparr>roi_coordinates = Some [0, 0, 1, 1], confidence_threshold = Some (9 / 10)\<rparr>
     \<lparr>cvtColor = \<lambda>i. Inr i, clahe_apply = Inr, fastNlMeansDenoising = Inr,
      ocr = \<lambda>g. Inr [Some [((), (py ''$50.00'', 95 / 100)), ((), (py ''$75.00'', 99 / 100))]], time_time = 0, time_time_handler = 1\<rparr>
     [[7 :: nat]] (py ''M1'') =
   Inr \<lparr>machine_id = py ''M1'', timestamp = 0, prize_amount = Some 75, confidence = 99 / 100,
      raw_text = [(py ''$50.00'', 95 / 100), (py ''$75.00'', 99 / 100)],
      status = py ''success''\<rparr> \<and>
   (status \<lparr>machine_id = py ''M1'', timestamp = 0, prize_amount = Some 75, confidence = 99 / 100,
      raw_text = [(py ''$50.00'', 95 / 100), (py ''$75.00'', 99 / 100)],
      status = py ''success''\<rparr> = py ''success'' \<longleftrightarrow>
    prize_amount \<lparr>machine_id = py ''M1'', timestamp = 0, prize_amount = Some 75, confidence = 99 / 100,
      raw_text = [(py ''$50.00'', 95 / 100), (py ''$75.00'', 99 / 100)],
      status = py ''success''\<rparr> \<noteq> None)"
  using two_detections_result status_success_iff_amount [OF two_detections_result]
  by (rule conjI)

text \<open>
  C9. The status of a result that \<open>process_frame\<close> returns is \<open>success\<close>,
  \<open>no_prize_found\<close> or a string that begins with \<open>error:\<close>, and these three exclude one
  another; the initial placeholder \<open>processing\<close> is never the status of a returned
  result.
\<close>

theorem status_one_of_three:
  "process_frame cfg (env :: ('p, 'g, 'b) collaborators) frame mid = Inr r \<Longrightarrow>
   (status r = py ''success'' \<or> status r = py ''no_prize_found'' \<or>
    prefix (py ''error:'') (status r)) \<and>
   status r \<noteq> py ''processing'' \<and>
   py ''success'' \<noteq> py ''no_prize_found'' \<and>
   \<not> prefix (py ''error:'') (py ''success'') \<and>
   \<not> prefix (py ''error:'') (py ''no_prize_found'')"
proof -
  assume "process_frame cfg env frame mid = Inr r"
  from process_frame_cases [OF this]
  have "(status r = py ''success'' \<or> status r = py ''no_prize_found'' \<or>
    prefix (py ''error:'') (status r)) \<and> status r \<noteq> py ''processing''"
  proof (elim disjE exE conjE)
    fix result :: "'b ocr_result"
    assume "classify cfg mid (time_time env) result = Inr r"
    from classify_status [OF this] show ?thesis by (auto simp: status_ne)
  next
    fix msg
    assume "r = \<lparr>machine_id = mid, timestamp = time_time_handler env, prize_amount = None,
      confidence = 0, raw_text = [], status = py ''error: '' @ msg\<rparr>"
    then show ?thesis by (simp add: status_ne prefix_error)
  qed
  moreover have "py ''success'' \<noteq> py ''no_prize_found'' \<and>
     \<not> prefix (py ''error:'') (py ''success'') \<and>
     \<not> prefix (py ''error:'') (py ''no_prize_found'')"
    by (simp add: py_def)
  ultimately show ?thesis by simp
qed

theorem status_one_of_three_witness:
  "process_frame \<lparr>roi_coordinates = Some [0, 0, 1, 1], confidence_threshold = None\<rparr>
     \<lparr>cvtColor = \<lambda>i. Inr i, clahe_apply = Inr, fastNlMeansDenoising = Inr,
      ocr = \<lambda>g. Inr [Some [((), (py ''$50.00'', 95 / 100)), ((), (py ''$75.00'', 99 / 100))]], time_time = 0, time_time_handler = 1\<rparr>
     [[7 :: nat]] (py ''M1'') =
   Inr \<lparr>machine_id = py ''M1'', timestamp = 1, prize_amount = None, confidence = 0,
      raw_text = [], status = py ''error: '' @ [39] @ py ''confidence_threshold'' @ [39]\<rparr> \<and>
   prefix (py ''error:'') (status \<lparr>machine_id = py ''M1'', timestamp = 1, prize_amount = None, confidence = 0,
      raw_text = [], status = py ''error: '' @ [39] @ py ''confidence_threshold'' @ [39]\<rparr>) \<and>
   status \<lparr>machine_id = py ''M1'', timestamp = 1, prize_amount = None, confidence = 0,
      raw_text = [], status = py ''error: '' @ [39] @ py ''confidence_threshold'' @ [39]\<rparr> \<noteq> py ''processing''"
proof -
  note t = status_one_of_three [OF missing_threshold_result]
  from t have p: "status \<lparr>machine_id = py ''M1'', timestamp = 1, prize_amount = None, confidence = 0,
      raw_text = [], status = py ''error: '' @ [39] @ py ''confidence_threshold'' @ [39]\<rparr> \<noteq> py ''processing''"
    by (rule conjunct1 [OF conjunct2])
  have "prefix (py ''error:'') (status \<lparr>machine_id = py ''M1'', timestamp = 1, prize_amount = None, confidence = 0,
      raw_text = [], status = py ''error: '' @ [39] @ py ''confidence_threshold'' @ [39]\<rparr>)"
    by (simp add: prefix_error)
  with missing_threshold_result p show ?thesis by blast
qed

section \<open>Exceptions in the pipeline\<close>

text \<open>
  C5, as the code has it. When a stage of the pipeline (the crop, the normalizer, the
  recognizer, or the scan with the parser) raises an exception of class \<open>Exception\<close>
  on a frame, \<open>process_frame\<close> returns a result: its status is \<open>error: \<close> followed by
  the exception's text, so it begins with \<open>error:\<close>, its confidence is 0 and its prize
  amount is \<open>None\<close>. An exception outside class \<open>Exception\<close> leaves \<open>process_frame\<close>.
\<close>

theorem exception_gives_error_result:
  "stage_raises cfg env frame mid e \<Longrightarrow>
   (case e of
      Exception msg \<Rightarrow>
        (\<exists>r. process_frame cfg env frame mid = Inr r \<and>
           status r = py ''error: '' @ msg \<and>
           prefix (py ''error:'') (status r) \<and>
           confidence r = 0 \<and> prize_amount r = None)
    | BaseExceptionOnly msg \<Rightarrow> process_frame cfg env frame mid = Inl e)"
proof -
  assume "stage_raises cfg env frame mid e"
  then have "try_frame cfg env frame mid = Inl e" by (simp add: try_frame_Inl)
  then show ?thesis
    by (cases e) (simp_all add: process_frame_def prefix_error)
qed

theorem exception_gives_error_result_witness:
  "stage_raises \<lparr>roi_coordinates = Some [0, 0, 1, 1], confidence_threshold = None\<rparr>
     \<lparr>cvtColor = \<lambda>i. Inr i, clahe_apply = Inr, fastNlMeansDenoising = Inr,
      ocr = \<lambda>g. Inr [Some [((), (py ''$50.00'', 95 / 100)), ((), (py ''$75.00'', 99 / 100))]], time_time = 0, time_time_handler = 1\<rparr>
     [[7 :: nat]] (py ''M1'') (key_error (py ''confidence_threshold'')) \<and>
   (\<exists>r. process_frame \<lparr>roi_coordinates = Some [0, 0, 1, 1], confidence_threshold = None\<rparr>
     \<lparr>cvtColor = \<lambda>i. Inr i, clahe_apply = Inr, fastNlMeansDenoising = Inr,
      ocr = \<lambda>g. Inr [Some [((), (py ''$50.00'', 95 / 100)), ((), (py ''$75.00'', 99 / 100))]], time_time = 0, time_time_handler = 1\<rparr>
     [[7 :: nat]] (py ''M1'') = Inr r \<and>
      status r = py ''error: '' @ [39] @ py ''confidence_threshold'' @ [39] \<and>
      prefix (py ''error:'') (status r) \<and> confidence r = 0 \<and> prize_amount r = None)"
proof -
  have h: "stage_raises \<lparr>roi_coordinates = Some [0, 0, 1, 1], confidence_threshold = None\<rparr>
     \<lparr>cvtColor = \<lambda>i. Inr i, clahe_apply = Inr, fastNlMeansDenoising = Inr,
      ocr = \<lambda>g. Inr [Some [((), (py ''$50.00'', 95 / 100)), ((), (py ''$75.00'', 99 / 100))]], time_time = 0, time_time_handler = 1\<rparr>
     [[7 :: nat]] (py ''M1'') (key_error (py ''confidence_threshold''))"
    by (simp add: stage_raises_def extract_roi_def preprocess_image_def py_slice_def
        slice_bound_def classify_def first_lines_def scan_line_def Let_def)
  from exception_gives_error_result [OF h]
  have "\<exists>r. process_frame \<lparr>roi_coordinates = Some [0, 0, 1, 1], confidence_threshold = None\<rparr>
     \<lparr>cvtColor = \<lambda>i. Inr i, clahe_apply = Inr, fastNlMeansDenoising = Inr,
      ocr = \<lambda>g. Inr [Some [((), (py ''$50.00'', 95 / 100)), ((), (py ''$75.00'', 99 / 100))]], time_time = 0, time_time_handler = 1\<rparr>
     [[7 :: nat]] (py ''M1'') = Inr r \<and>
      status r = py ''error: '' @ [39] @ py ''confidence_threshold'' @ [39] \<and>
      prefix (py ''error:'') (status r) \<and> confidence r = 0 \<and> prize_amount r = None"
    by (simp add: key_error_def)
  with h show ?thesis by (rule conjI)
qed

theorem interrupt_leaves_process_frame:
  "stage_raises \<lparr>roi_coordinates = Some [0, 0, 1, 1], confidence_threshold = Some (9 / 10)\<rparr>
     \<lparr>cvtColor = \<lambda>i. Inr i, clahe_apply = Inr, fastNlMeansDenoising = Inr,
      ocr = \<lambda>g. Inl (BaseExceptionOnly []) :: exn + unit ocr_result, time_time = 0, time_time_handler = 1\<rparr>
     [[7 :: nat]] (py ''M1'') (BaseExceptionOnly []) \<and>
   process_frame \<lparr>roi_coordinates = Some [0, 0, 1, 1], confidence_threshold = Some (9 / 10)\<rparr>
     \<lparr>cvtColor = \<lambda>i. Inr i, clahe_apply = Inr, fastNlMeansDenoising = Inr,
      ocr = \<lambda>g. Inl (BaseExceptionOnly []) :: exn + unit ocr_result, time_time = 0, time_time_handler = 1\<rparr>
     [[7 :: nat]] (py ''M1'') = Inl (BaseExceptionOnly [])"
  by (simp add: stage_raises_def process_frame_def try_frame_def extract_roi_def
      preprocess_image_def py_slice_def slice_bound_def Let_def)

section \<open>The confidence of the best amount\<close>

lemma scan_line_inv:
  "scan_line cfg dl d = Inr d' \<Longrightarrow> best_inv cfg d \<Longrightarrow> best_inv cfg d'"
proof -
  assume s: "scan_line cfg dl d = Inr d'" and inv: "best_inv cfg d"
  obtain b t c where dl: "dl = (b, t, c)" by (cases dl) auto
  from s obtain thr where thr: "confidence_threshold cfg = Some thr"
    by (cases "confidence_threshold cfg") (auto simp: scan_line_def Let_def)
  show ?thesis
  proof (cases "parse_prize_amount t")
    case None
    with inv s thr show ?thesis
      by (auto simp: best_inv_def scan_line_def Let_def dl truthy_def split: if_splits)
  next
    case (Some v)
    with inv s thr show ?thesis
      by (fastforce simp: best_inv_def scan_line_def Let_def dl truthy_def split: if_splits)
  qed
qed

lemma scan_lines_inv:
  "scan_lines cfg ls d = Inr d' \<Longrightarrow> best_inv cfg d \<Longrightarrow> best_inv cfg d'"
proof (induction ls arbitrary: d)
  case Nil
  then show ?case by simp
next
  case (Cons dl ls)
  from Cons.prems(1) obtain d1 where d1: "scan_line cfg dl d = Inr d1"
    "scan_lines cfg ls d1 = Inr d'"
    by (auto split: sum.splits)
  from scan_line_inv [OF d1(1) Cons.prems(2)] have "best_inv cfg d1" .
  from Cons.IH [OF d1(2) this] show ?case .
qed

lemma classify_inv: "classify cfg mid now result = Inr r \<Longrightarrow> best_inv cfg r"
proof -
  assume c: "classify cfg mid now result = Inr r"
  define d0 where "d0 = \<lparr>machine_id = mid, timestamp = now, prize_amount = None,
     confidence = 0, raw_text = [], status = py ''processing''\<rparr>"
  have i0: "best_inv cfg d0" by (simp add: best_inv_def d0_def)
  from c obtain d where d: "scan_lines cfg (first_lines result) d0 = Inr d"
    and r: "r = (if prize_amount d \<noteq> None then d\<lparr>status := py ''success''\<rparr>
       else d\<lparr>status := py ''no_prize_found''\<rparr>)"
    by (auto simp: classify_def Let_def d0_def split: sum.splits)
  from scan_lines_inv [OF d i0] have "best_inv cfg d" .
  with r show ?thesis by (simp add: best_inv_def)
qed

text \<open>
  C10. When a result that \<open>process_frame\<close> returns has a prize amount, one of its
  recorded detections has a text that parses to that amount and a confidence equal to
  the returned confidence, and that confidence is at least the configured threshold.
\<close>

theorem confidence_of_best_detection:
  "process_frame cfg (env :: ('p, 'g, 'b) collaborators) frame mid = Inr r \<Longrightarrow> prize_amount r = Some a \<Longrightarrow>
   \<exists>t c thr. (t, c) \<in> set (raw_text r) \<and> parse_prize_amount t = Some a \<and>
     c = confidence r \<and> confidence_threshold cfg = Some thr \<and> thr \<le> c"
proof -
  assume p: "process_frame cfg env frame mid = Inr r" and a: "prize_amount r = Some a"
  from process_frame_cases [OF p] show ?thesis
  proof (elim disjE exE conjE)
    fix result :: "'b ocr_result"
    assume "classify cfg mid (time_time env) result = Inr r"
    from classify_inv [OF this] a show ?thesis by (simp add: best_inv_def)
  next
    fix msg
    assume "r = \<lparr>machine_id = mid, timestamp = time_time_handler env, prize_amount = None,
      confidence = 0, raw_text = [], status = py ''error: '' @ msg\<rparr>"
    with a show ?thesis by simp
  qed
qed

theorem confidence_of_best_detection_witness:
  "process_frame \<lparr>roi_coordinates = Some [0, 0, 1, 1], confidence_threshold = Some (9 / 10)\<rparr>
     \<lparr>cvtColor = \<lambda>i. Inr i, clahe_apply = Inr, fastNlMeansDenoising = Inr,
      ocr = \<lambda>g. Inr [Some [((), (py ''$50.00'', 95 / 100)), ((), (py ''$75.00'', 99 / 100))]], time_time = 0, time_time_handler = 1\<rparr>
     [[7 :: nat]] (py ''M1'') =
   Inr \<lparr>machine_id = py ''M1'', timestamp = 0, prize_amount = Some 75, confidence = 99 / 100,
      raw_text = [(py ''$50.00'', 95 / 100), (py ''$75.00'', 99 / 100)],
      status = py ''success''\<rparr> \<and>
   prize_amount \<lparr>machine_id = py ''M1'', timestamp = 0, prize_amount = Some 75, confidence = 99 / 100,
      raw_text = [(py ''$50.00'', 95 / 100), (py ''$75.00'', 99 / 100)],
      status = py ''success''\<rparr> = Some 75 \<and>
   (\<exists>t c thr. (t, c) \<in> set (raw_text \<lparr>machine_id = py ''M1'', timestamp = 0, prize_amount = Some 75, confidence = 99 / 100,
      raw_text = [(py ''$50.00'', 95 / 100), (py ''$75.00'', 99 / 100)],
      status = py ''success''\<rparr>) \<and>
      parse_prize_amount t = Some 75 \<and>
      c = confidence \<lparr>machine_id = py ''M1'', timestamp = 0, prize_amount = Some 75, confidence = 99 / 100,
      raw_text = [(py ''$50.00'', 95 / 100), (py ''$75.00'', 99 / 100)],
      status = py ''success''\<rparr> \<and>
      confidence_threshold \<lparr>roi_coordinates = Some [0, 0, 1, 1], confidence_threshold = Some (9 / 10)\<rparr> = Some thr \<and>
      thr \<le> c)"
proof -
  have h: "prize_amount \<lparr>machine_id = py ''M1'', timestamp = 0, prize_amount = Some 75, confidence = 99 / 100,
      raw_text = [(py ''$50.00'', 95 / 100), (py ''$75.00'', 99 / 100)],
      status = py ''success''\<rparr> = Some 75"
    by simp
  from confidence_of_best_detection [OF two_detections_result h] two_detections_result h
  show ?thesis by blast
qed

section \<open>Persistence only on success\<close>

text \<open>
  C8. A result whose status is not \<open>success\<close> leaves the database as it was, with no
  call of \<open>update_prize\<close>; a call of \<open>update_prize\<close> happens only for a result with
  status \<open>success\<close>; a round of the loop on a frame whose result is not a success
  leaves the store unchanged; and so does a round that \<open>process_frame\<close> leaves by an
  exception.
\<close>

theorem upsert_only_on_success:
  "(status result \<noteq> py ''success'' \<longrightarrow> update_database db result = db) \<and>
   (upserts (update_database db result) \<noteq> upserts db \<longrightarrow> status result = py ''success'') \<and>
   (process_frame cfg env frame mid = Inr r \<and> status r \<noteq> py ''success'' \<longrightarrow>
      store (snd (main_iteration cfg env mid st frame)) = store st) \<and>
   (process_frame cfg env frame mid = Inl e \<longrightarrow>
      main_iteration cfg env mid st frame = (Some e, st))"
  by (auto simp: update_database_def main_iteration_def Let_def)

theorem upsert_only_on_success_witness:
  "status \<lparr>machine_id = py ''M1'', timestamp = 0, prize_amount = None, confidence = 0,
      raw_text = [], status = py ''no_prize_found''\<rparr> \<noteq> py ''success'' \<and>
   update_database
     \<lparr>slot_machine_prizes = Map.empty, fault = None, current_timestamp = 0, upserts = []\<rparr>
     \<lparr>machine_id = py ''M1'', timestamp = 0, prize_amount = None, confidence = 0,
      raw_text = [], status = py ''no_prize_found''\<rparr> =
     \<lparr>slot_machine_prizes = Map.empty, fault = None, current_timestamp = 0, upserts = []\<rparr> \<and>
   upserts (update_database
     \<lparr>slot_machine_prizes = Map.empty, fault = None, current_timestamp = 0, upserts = []\<rparr>
     \<lparr>machine_id = py ''M1'', timestamp = 0, prize_amount = Some 500, confidence = 97 / 100,
      raw_text = [], status = py ''success''\<rparr>) = [(py ''M1'', 500, 97 / 100, 0)] \<and>
   store (snd (main_iteration \<lparr>roi_coordinates = Some [0, 0, 1, 1], confidence_threshold = Some (9 / 10)\<rparr>
     \<lparr>cvtColor = \<lambda>i. Inr i, clahe_apply = Inr, fastNlMeansDenoising = Inr,
      ocr = \<lambda>g. Inr [Some [((), (py ''JACKPOT'', 99 / 100))]], time_time = 0, time_time_handler = 1\<rparr>
     (py ''M1'')
     \<lparr>frame_count = 0, success_count = 0,
      store = \<lparr>slot_machine_prizes = Map.empty, fault = None, current_timestamp = 0, upserts = []\<rparr>\<rparr>
     [[7 :: nat]])) =
     \<lparr>slot_machine_prizes = Map.empty, fault = None, current_timestamp = 0, upserts = []\<rparr> \<and>
   main_iteration \<lparr>roi_coordinates = Some [0, 0, 1, 1], confidence_threshold = Some (9 / 10)\<rparr>
     \<lparr>cvtColor = \<lambda>i. Inr i, clahe_apply = Inr, fastNlMeansDenoising = Inr,
      ocr = \<lambda>g. Inl (BaseExceptionOnly []) :: exn + unit ocr_result, time_time = 0, time_time_handler = 1\<rparr>
     (py ''M1'')
     \<lparr>frame_count = 0, success_count = 0,
      store = \<lparr>slot_machine_prizes = Map.empty, fault = None, current_timestamp = 0, upserts = []\<rparr>\<rparr>
     [[7 :: nat]] =
     (Some (BaseExceptionOnly []),
      \<lparr>frame_count = 0, success_count = 0,
      store = \<lparr>slot_machine_prizes = Map.empty, fault = None, current_timestamp = 0, upserts = []\<rparr>\<rparr>)"
proof -
  let ?db = "\<lparr>slot_machine_prizes = Map.empty, fault = None, current_timestamp = 0, upserts = []\<rparr>"
  let ?r = "\<lparr>machine_id = py ''M1'', timestamp = 0, prize_amount = None, confidence = 0,
      raw_text = [], status = py ''no_prize_found''\<rparr>"
  let ?s = "\<lparr>machine_id = py ''M1'', timestamp = 0, prize_amount = Some 500, confidence = 97 / 100,
      raw_text = [], status = py ''success''\<rparr>"
  let ?cfg = "\<lparr>roi_coordinates = Some [0, 0, 1, 1], confidence_threshold = Some (9 / 10)\<rparr>"
  let ?env = "\<lparr>cvtColor = \<lambda>i. Inr i, clahe_apply = Inr, fastNlMeansDenoising = Inr,
      ocr = \<lambda>g. Inr [Some [((), (py ''JACKPOT'', 99 / 100))]], time_time = 0, time_time_handler = 1\<rparr>"
  let ?st = "\<lparr>frame_count = 0, success_count = 0, store = ?db\<rparr>"
  let ?j = "\<lparr>machine_id = py ''M1'', timestamp = 0, prize_amount = None, confidence = 0,
      raw_text = [(py ''JACKPOT'', 99 / 100)], status = py ''no_prize_found''\<rparr>"
  have h: "status ?r \<noteq> py ''success''" by (simp add: status_ne)
  have u: "upserts (update_database ?db ?s) = [(py ''M1'', 500, 97 / 100, 0)]"
    by (simp add: update_database_def update_prize_def Let_def)
  have f: "process_frame ?cfg ?env [[7 :: nat]] (py ''M1'') = Inr ?j \<and> status ?j \<noteq> py ''success''"
    using no_amount_result by (simp add: status_ne)
  note t = upsert_only_on_success [of ?r ?db ?cfg ?env "[[7 :: nat]]" "(py ''M1'')" ?j ?st]
  from t h have a: "update_database ?db ?r = ?db" by blast
  from t f have m: "store (snd (main_iteration ?cfg ?env (py ''M1'') ?st [[7 :: nat]])) = store ?st"
    by blast
  have "store ?st = ?db" by simp
  with m have b: "store (snd (main_iteration ?cfg ?env (py ''M1'') ?st [[7 :: nat]])) = ?db"
    by (rule trans)
  from upsert_only_on_success [of ?r ?db ?cfg
      "\<lparr>cvtColor = \<lambda>i. Inr i, clahe_apply = Inr, fastNlMeansDenoising = Inr,
      ocr = \<lambda>g. Inl (BaseExceptionOnly []) :: exn + unit ocr_result, time_time = 0, time_time_handler = 1\<rparr>"
      "[[7 :: nat]]" "(py ''M1'')" ?j ?st "BaseExceptionOnly []"] interrupted_recognizer_result
  have k: "main_iteration ?cfg
      \<lparr>cvtColor = \<lambda>i. Inr i, clahe_apply = Inr, fastNlMeansDenoising = Inr,
      ocr = \<lambda>g. Inl (BaseExceptionOnly []) :: exn + unit ocr_result, time_time = 0, time_time_handler = 1\<rparr>
      (py ''M1'') ?st [[7 :: nat]] = (Some (BaseExceptionOnly []), ?st)"
    by blast
  from h a u b k show ?thesis by blast
qed

section \<open>The crop\<close>









section \<open>The order of the patterns\<close>

lemma clean_2000000:
  "re_sub_class noise_char [] (py ''$2,000,000.00'') =
     [36, 50, 44, 48, 48, 48, 44, 48, 48, 48, 46, 48, 48]"
  by (simp add: re_sub_class_def noise_char_def py_def char_defs)

lemma findall1_2000000:
  "findall pattern1 [36, 50, 44, 48, 48, 48, 44, 48, 48, 48, 46, 48, 48] =
     [[50, 44, 48, 48, 48, 44, 48, 48, 48, 46, 48, 48]]"
  by (simp add: pattern_defs char_defs)

lemma findall3_2000000:
  "findall pattern3 [36, 50, 44, 48, 48, 48, 44, 48, 48, 48, 46, 48, 48] =
     [[50], [48, 48, 48], [48, 48, 48, 46, 48, 48]]"
  by (simp add: pattern_defs char_defs)

lemma first_amount1_2000000:
  "first_amount pattern1 [36, 50, 44, 48, 48, 48, 44, 48, 48, 48, 46, 48, 48] = Some 2000000"
  by (simp add: first_amount_def findall1_2000000 str_replace_def float_py_def decimal_def
      digit_value_def char_defs del: findall.simps)

lemma first_amount3_2000000:
  "first_amount pattern3 [36, 50, 44, 48, 48, 48, 44, 48, 48, 48, 46, 48, 48] = Some 2"
  by (simp add: first_amount_def findall3_2000000 str_replace_def float_py_def decimal_def
      digit_value_def char_defs del: findall.simps)

lemma parse_2000000: "parse_prize_amount (py ''$2,000,000.00'') = Some 2"
  by (simp add: parse_defs)

text \<open>
  C3 at the input \<open>"$2,000,000.00"\<close>: the first pattern has a match,
  \<open>2,000,000.00\<close>, which parses to 2000000; the amount returned is nevertheless 2, the
  first match of the third pattern. The parser has not stopped at the first pattern
  that yields a match, and the match of a later pattern is used.
\<close>

theorem later_pattern_used_after_first_matched:
  "findall pattern1 (re_sub_class noise_char [] (py ''$2,000,000.00'')) =
     [[50, 44, 48, 48, 48, 44, 48, 48, 48, 46, 48, 48]] \<and>
   first_amount pattern1 (re_sub_class noise_char [] (py ''$2,000,000.00'')) = Some 2000000 \<and>
   first_amount pattern3 (re_sub_class noise_char [] (py ''$2,000,000.00'')) = Some 2 \<and>
   parse_prize_amount (py ''$2,000,000.00'') = Some 2"
  by (simp add: clean_2000000 findall1_2000000 first_amount1_2000000 first_amount3_2000000
      parse_2000000 del: findall.simps)

section \<open>Amounts outside the bounds, and parsing a rendered amount again\<close>

text \<open>
  C2 at the input \<open>"$2,000,000.00"\<close>: the first match of the first pattern parses to
  2000000, which is outside the bounds, and the parser goes on to the third pattern,
  whose first match is \<open>2\<close>; it returns 2.0, not \<open>None\<close>.
\<close>

theorem two_million_parses_to_two:
  "accepted pattern1 (re_sub_class noise_char [] (py ''$2,000,000.00'')) = None \<and>
   parse_prize_amount (py ''$2,000,000.00'') = Some 2"
  by (simp add: accepted_def clean_2000000 first_amount1_2000000 parse_2000000)

lemma str_nat_digit: "n < 10 \<Longrightarrow> str_nat n = [48 + n]"
  by (simp add: str_nat.simps)

lemma str_nat_more: "10 \<le> n \<Longrightarrow> str_nat n = str_nat (n div 10) @ [48 + n mod 10]"
  by (subst str_nat.simps) simp

text \<open>
  C7 at the input \<open>"$1,234.56"\<close>: it parses to 1234.56, whose rendering with two
  decimals is \<open>"1234.56"\<close>; on that text the first pattern takes the digits \<open>123\<close>, and
  the parser returns 123.0.
\<close>

theorem rendered_amount_parses_differently:
  "parse_prize_amount (py ''$1,234.56'') = Some (123456 / 100) \<and>
   format_2f (123456 / 100) = py ''1234.56'' \<and>
   parse_prize_amount (py ''1234.56'') = Some 123"
proof (intro conjI)
  show "parse_prize_amount (py ''$1,234.56'') = Some (123456 / 100)"
    by (simp add: parse_defs)
  show "format_2f (123456 / 100) = py ''1234.56''"
    by (simp add: format_2f_def Let_def str_nat_digit str_nat_more py_def PERIOD_def)
  show "parse_prize_amount (py ''1234.56'') = Some 123"
    by (simp add: parse_defs)
qed

end
